theory Spec2Isabelle
  imports Main
begin

section \<open>Data model\<close>

text \<open>
  The two components of the repository view, \<open>ChangesSidebar\<close>
  (\<^verbatim>\<open>src/unnamed/part_000\<close>) and \<open>RepositoryView\<close>
  (\<^verbatim>\<open>src/app/src/ui/repository.tsx\<close>), read a state snapshot and call a dispatcher.
  The models, stores and the dispatcher are imported by the two files and declared
  elsewhere; what the two files read of them is modelled here.

  Service objects that the components only pass on (dispatcher, stores, history state, diff)
  are opaque handles.
\<close>

type_synonym Dispatcher = nat
type_synonym IssuesStore = nat
type_synonym GitHubUserStore = nat
type_synonym AppStore = nat
type_synonym IHistoryState = nat
type_synonym IDiff = nat
type_synonym ImageDiffType = nat

text \<open>
  An array that the code compares with \<^verbatim>\<open>!==\<close> is an object: its identity is its address,
  its contents are its elements.
\<close>

record 'a ArrayRef =
  addr :: nat
  elems :: "'a list"

record Account =
  account_login :: string
  account_endpoint :: string

record GitHubRepository =
  gh_name :: string
  gh_endpoint :: string

record Repository =
  repository_id :: int
  repository_name :: string
  repository_path :: string
  gitHubRepository :: "GitHubRepository option"

datatype DiffSelectionType =
    DiffSelectionType_All
  | DiffSelectionType_Partial
  | DiffSelectionType_None

text \<open>
  The class \<open>DiffSelection\<close> is declared in \<^verbatim>\<open>models/diff\<close>; the sidebar only calls its
  method \<^verbatim>\<open>getSelectionType()\<close>, whose result is the field below.
\<close>

record DiffSelection =
  getSelectionType :: DiffSelectionType

record WorkingDirectoryFileChange =
  file_path :: string
  file_id :: string
  selection :: DiffSelection

record WorkingDirectoryStatus =
  files :: "WorkingDirectoryFileChange list"

record ICommitMessage =
  summary :: string
  description :: "string option"

record IChangesState =
  workingDirectory :: WorkingDirectoryStatus
  selectedFileID :: "string option"
  diff :: "IDiff option"
  commitMessage :: "ICommitMessage option"
  contextualCommitMessage :: "ICommitMessage option"
  showCoAuthoredBy :: bool

record CommitIdentity =
  identity_name :: string
  email :: string

record IGitHubUser =
  user_login :: string
  user_name :: string

record Commit =
  sha :: string
  commit_summary :: string

record Branch =
  branch_name :: string

record IChangesSidebarProps =
  repository :: Repository
  changes :: IChangesState
  dispatcher :: Dispatcher
  commitAuthor :: "CommitIdentity option"
  branch :: "string option"
  gitHubUsers :: "string \<rightharpoonup> IGitHubUser"
  emoji :: "string \<rightharpoonup> string"
  mostRecentLocalCommit :: "Commit option"
  issuesStore :: IssuesStore
  availableWidth :: int
  appStore :: AppStore
  isCommitting :: bool
  isPushPullFetchInProgress :: bool
  gitHubUserStore :: GitHubUserStore
  askForConfirmationOnDiscardChanges :: bool
  accounts :: "Account ArrayRef"

text \<open>
  The three autocompletion providers, each with the arguments of its constructor call.
  The third argument of \<open>UserAutocompletionProvider\<close> is the result of \<^verbatim>\<open>Array.find\<close>:
  an account, or \<^verbatim>\<open>undefined\<close>.
\<close>

datatype IAutocompletionProvider =
    is_Emoji: EmojiAutocompletionProvider "string \<rightharpoonup> string"
  | is_Issues: IssuesAutocompletionProvider IssuesStore GitHubRepository Dispatcher
  | is_User: UserAutocompletionProvider GitHubUserStore GitHubRepository "Account option"

section \<open>Effects\<close>

text \<open>
  What a handler does is the list of its calls, in order: calls on the dispatcher,
  lines written to the console, and \<^verbatim>\<open>preventDefault\<close> on the event.
  \<open>RepositorySection\<close> is a two-valued enum declared in \<^verbatim>\<open>lib/app-state\<close>; the value
  that arrives at run time is not checked, so the model has a third constructor for
  any other value.
\<close>

datatype RepositorySection =
    RepositorySection_Changes
  | RepositorySection_History
  | RepositorySection_Other int

datatype Popup =
    ConfirmDiscardChanges Repository "WorkingDirectoryFileChange list"

datatype DispatcherCall =
    ChangeChangesSelection Repository "WorkingDirectoryFileChange option"
  | ChangeFileIncluded Repository WorkingDirectoryFileChange bool
  | ChangeIncludeAllFiles Repository bool
  | DiscardChanges Repository "WorkingDirectoryFileChange list"
  | ShowPopup Popup
  | Ignore Repository string
  | RevealInFileManager Repository string
  | RevertCommit Repository Commit
  | ChangeRepositorySection Repository RepositorySection

datatype effect =
    Dispatch Dispatcher DispatcherCall
  | ConsoleError string
  | PreventDefault

section \<open>ChangesSidebar\<close>

text \<open>
  The component instance: \<^verbatim>\<open>this.props\<close>, the private field
  \<^verbatim>\<open>autocompletionProviders\<close> (\<^verbatim>\<open>undefined\<close> until first assigned), and the address
  that the next array literal of \<open>receiveProps\<close> is allocated at.
\<close>

record ChangesSidebar =
  props :: IChangesSidebarProps
  autocompletionProviders :: "IAutocompletionProvider ArrayRef option"
  nextAddr :: nat

definition receiveProps :: "IChangesSidebarProps \<Rightarrow> ChangesSidebar \<Rightarrow> ChangesSidebar" where
  "receiveProps p this =
     (if repository_id (repository p) \<noteq> repository_id (repository (props this)) \<or>
         autocompletionProviders this = None \<or>
         addr (accounts p) \<noteq> addr (accounts (props this))
      then
        let emojiOnly = [EmojiAutocompletionProvider (emoji (props this))];
            providers =
              (case gitHubRepository (repository p) of
                 None \<Rightarrow> emojiOnly
               | Some gitHubRepository' \<Rightarrow>
                   let withIssues = emojiOnly @
                         [IssuesAutocompletionProvider (issuesStore p) gitHubRepository' (dispatcher p)];
                       account = find (\<lambda>a. account_endpoint a = gh_endpoint gitHubRepository')
                                   (elems (accounts (props this)))
                   in withIssues @
                        [UserAutocompletionProvider (gitHubUserStore p) gitHubRepository' account])
        in this\<lparr>autocompletionProviders := Some \<lparr>addr = nextAddr this, elems = providers\<rparr>,
                nextAddr := Suc (nextAddr this)\<rparr>
      else this)"

text \<open>
  The constructor: \<^verbatim>\<open>super(props)\<close> sets \<^verbatim>\<open>this.props\<close>, then \<open>receiveProps\<close> runs.
  The first argument is the address the allocator is at.
\<close>

definition constructor_ChangesSidebar :: "nat \<Rightarrow> IChangesSidebarProps \<Rightarrow> ChangesSidebar" where
  "constructor_ChangesSidebar a p =
     receiveProps p \<lparr>props = p, autocompletionProviders = None, nextAddr = a\<rparr>"

definition componentWillReceiveProps :: "IChangesSidebarProps \<Rightarrow> ChangesSidebar \<Rightarrow> ChangesSidebar" where
  "componentWillReceiveProps nextProps this = receiveProps nextProps this"

text \<open>
  A property update as the framework delivers it: \<open>componentWillReceiveProps\<close> runs
  while \<^verbatim>\<open>this.props\<close> still holds the previous properties, then the new ones are stored.
\<close>

definition deliverProps :: "IChangesSidebarProps \<Rightarrow> ChangesSidebar \<Rightarrow> ChangesSidebar" where
  "deliverProps nextProps this = (componentWillReceiveProps nextProps this)\<lparr>props := nextProps\<rparr>"

fun deliverAll :: "ChangesSidebar \<Rightarrow> IChangesSidebarProps list \<Rightarrow> ChangesSidebar" where
  "deliverAll this [] = this"
| "deliverAll this (q # qs) = deliverAll (deliverProps q this) qs"

text \<open>Construction followed by a sequence of property updates.\<close>

definition lifecycle :: "nat \<Rightarrow> IChangesSidebarProps \<Rightarrow> IChangesSidebarProps list \<Rightarrow> ChangesSidebar" where
  "lifecycle a p0 qs = deliverAll (constructor_ChangesSidebar a p0) qs"

text \<open>
  Every list that the component holds was allocated below the allocator's next address.
\<close>

definition allocated :: "ChangesSidebar \<Rightarrow> bool" where
  "allocated this =
     (case autocompletionProviders this of None \<Rightarrow> False | Some arr \<Rightarrow> addr arr < nextAddr this)"

text \<open>
  \<^verbatim>\<open>files[row]\<close>: an element for an integer index inside the array, \<^verbatim>\<open>undefined\<close> otherwise.
\<close>

definition fileAtRow :: "WorkingDirectoryFileChange list \<Rightarrow> int \<Rightarrow> WorkingDirectoryFileChange option" where
  "fileAtRow fs row = (if 0 \<le> row \<and> row < int (length fs) then Some (fs ! nat row) else None)"

definition onFileSelectionChanged :: "IChangesSidebarProps \<Rightarrow> int \<Rightarrow> effect list" where
  "onFileSelectionChanged p row =
     (let file = fileAtRow (files (workingDirectory (changes p))) row
      in [Dispatch (dispatcher p) (ChangeChangesSelection (repository p) file)])"

definition onIncludeChanged :: "IChangesSidebarProps \<Rightarrow> string \<Rightarrow> bool \<Rightarrow> effect list" where
  "onIncludeChanged p path include =
     (case find (\<lambda>f. file_path f = path) (files (workingDirectory (changes p))) of
        None \<Rightarrow>
          [ConsoleError (''unable to find working directory file to apply included change: '' @ path)]
      | Some file \<Rightarrow>
          [Dispatch (dispatcher p) (ChangeFileIncluded (repository p) file include)])"

definition onSelectAll :: "IChangesSidebarProps \<Rightarrow> bool \<Rightarrow> effect list" where
  "onSelectAll p selectAll = [Dispatch (dispatcher p) (ChangeIncludeAllFiles (repository p) selectAll)]"

definition onDiscardChanges :: "IChangesSidebarProps \<Rightarrow> WorkingDirectoryFileChange \<Rightarrow> effect list" where
  "onDiscardChanges p file =
     (if \<not> askForConfirmationOnDiscardChanges p
      then [Dispatch (dispatcher p) (DiscardChanges (repository p) [file])]
      else [Dispatch (dispatcher p) (ShowPopup (ConfirmDiscardChanges (repository p) [file]))])"

definition onDiscardAllChanges :: "IChangesSidebarProps \<Rightarrow> WorkingDirectoryFileChange list \<Rightarrow> effect list" where
  "onDiscardAllChanges p fs =
     (if \<not> askForConfirmationOnDiscardChanges p
      then [Dispatch (dispatcher p) (DiscardChanges (repository p) fs)]
      else [Dispatch (dispatcher p) (ShowPopup (ConfirmDiscardChanges (repository p) fs))])"

definition onIgnore :: "IChangesSidebarProps \<Rightarrow> string \<Rightarrow> effect list" where
  "onIgnore p pattern = [Dispatch (dispatcher p) (Ignore (repository p) pattern)]"

definition onRevealInFileManager :: "IChangesSidebarProps \<Rightarrow> string \<Rightarrow> effect list" where
  "onRevealInFileManager p path = [Dispatch (dispatcher p) (RevealInFileManager (repository p) path)]"

definition onToggleInclude :: "IChangesSidebarProps \<Rightarrow> int \<Rightarrow> effect list" where
  "onToggleInclude p row =
     (case fileAtRow (files (workingDirectory (changes p))) row of
        None \<Rightarrow> [ConsoleError ''keyboard selection toggle despite no file - what?'']
      | Some file \<Rightarrow>
          (let currentSelection = getSelectionType (selection file)
           in [Dispatch (dispatcher p)
                 (ChangeFileIncluded (repository p) file (currentSelection = DiffSelectionType_None))]))"

record ClickSource =
  kind :: string

definition onChangedItemClick :: "IChangesSidebarProps \<Rightarrow> int \<Rightarrow> ClickSource \<Rightarrow> effect list" where
  "onChangedItemClick p row source =
     (if kind source = ''keyboard'' then onToggleInclude p row else [])"

text \<open>
  A character of a string is a code point from U+0000 to U+00FF.
  \<^verbatim>\<open>String.prototype.toLowerCase\<close> on these: the letters \<open>A\<close> to \<open>Z\<close> (65 to 90) and the
  upper-case letters of the Latin-1 supplement (192 to 222, without the multiplication
  sign 215) move up by 32; every other code point of the range has no other lower-case
  form and is kept.
\<close>

definition toLowerCase_char :: "char \<Rightarrow> char" where
  "toLowerCase_char c =
     (let n = (of_char c :: nat)
      in if (65 \<le> n \<and> n \<le> 90) \<or> (192 \<le> n \<and> n \<le> 222 \<and> n \<noteq> 215)
         then char_of (n + 32) else c)"

definition toLowerCase :: "string \<Rightarrow> string" where
  "toLowerCase s = map toLowerCase_char s"

text \<open>
  The \<^verbatim>\<open>user\<close> that \<open>render\<close> computes and hands to the list as \<^verbatim>\<open>gitHubUser\<close>.
  \<^verbatim>\<open>if (email)\<close> is false for \<^verbatim>\<open>null\<close> and for the empty string.
\<close>

definition render_user :: "IChangesSidebarProps \<Rightarrow> IGitHubUser option" where
  "render_user p =
     (let email' = (case commitAuthor p of Some a \<Rightarrow> Some (email a) | None \<Rightarrow> None)
      in case email' of
           None \<Rightarrow> None
         | Some e \<Rightarrow> if e = [] then None else gitHubUsers p (toLowerCase e))"

section \<open>RepositoryView\<close>

datatype Tab = Tab_Changes | Tab_History

text \<open>The tip of the current branch, declared in \<^verbatim>\<open>models/tip\<close>.\<close>

datatype Tip = Tip_Unknown | Tip_Unborn | Tip_Detached | Tip_Valid Branch

record IRepositoryModelState =
  selectedSection :: RepositorySection
  changesState :: IChangesState
  historyState :: IHistoryState
  tip :: Tip
  localCommitSHAs :: "string list"
  commits :: "string \<rightharpoonup> Commit"
  st_commitAuthor :: "CommitIdentity option"
  st_gitHubUsers :: "string \<rightharpoonup> IGitHubUser"
  st_isCommitting :: bool
  st_isPushPullFetchInProgress :: bool

record IRepositoryProps =
  rp_repository :: Repository
  rp_state :: IRepositoryModelState
  rp_dispatcher :: Dispatcher
  rp_emoji :: "string \<rightharpoonup> string"
  rp_sidebarWidth :: int
  rp_commitSummaryWidth :: int
  rp_issuesStore :: IssuesStore
  rp_appStore :: AppStore
  rp_gitHubUserStore :: GitHubUserStore
  rp_imageDiffType :: ImageDiffType
  rp_askForConfirmationOnDiscardChanges :: bool
  rp_accounts :: "Account ArrayRef"

record IHistorySidebarProps =
  hs_repository :: Repository
  hs_dispatcher :: Dispatcher
  hs_history :: IHistoryState
  hs_gitHubUsers :: "string \<rightharpoonup> IGitHubUser"
  hs_emoji :: "string \<rightharpoonup> string"
  hs_commits :: "string \<rightharpoonup> Commit"
  hs_localCommitSHAs :: "string list"

record IChangesProps =
  ch_repository :: Repository
  ch_dispatcher :: Dispatcher
  ch_file :: WorkingDirectoryFileChange
  ch_diff :: IDiff
  ch_imageDiffType :: ImageDiffType

record IHistoryProps =
  hi_repository :: Repository
  hi_dispatcher :: Dispatcher
  hi_history :: IHistoryState
  hi_emoji :: "string \<rightharpoonup> string"
  hi_commits :: "string \<rightharpoonup> Commit"
  hi_commitSummaryWidth :: int
  hi_gitHubUsers :: "string \<rightharpoonup> IGitHubUser"
  hi_imageDiffType :: ImageDiffType

text \<open>
  The rendered tree. A \<open>UiView\<close> has its id (if any), its inline style and its children;
  \<open>Nothing\<close> is a child that is \<^verbatim>\<open>null\<close> or \<^verbatim>\<open>false\<close>, which the framework leaves out.
  Child components are elements holding their properties; callbacks are left out.
\<close>

datatype element =
    UiView "string option" "(string \<times> string) list" "element list"
  | TabBar Tab "element list"
  | Span "string option" "element list"
  | Text string
  | Octicon string string
  | ChangesSidebarElement IChangesSidebarProps
  | HistorySidebarElement IHistorySidebarProps
  | NoChangesElement
  | ChangesElement IChangesProps
  | HistoryElement IHistoryProps
  | Nothing

text \<open>\<^verbatim>\<open>assertNever\<close> of \<^verbatim>\<open>lib/fatal-error\<close> throws an error with the given message.\<close>

datatype error = FatalError string

definition assertNever :: "RepositorySection \<Rightarrow> string \<Rightarrow> error + element" where
  "assertNever x message = Inl (FatalError message)"

definition renderTabs :: "IRepositoryProps \<Rightarrow> element" where
  "renderTabs p =
     (let hasChanges = length (files (workingDirectory (changesState (rp_state p)))) > 0;
          selectedTab = (if selectedSection (rp_state p) = RepositorySection_Changes
                         then Tab_Changes else Tab_History)
      in TabBar selectedTab
           [Span (Some ''with-indicator'')
              [Span None [Text ''Changes''],
               (if hasChanges then Octicon ''indicator'' ''primitiveDot'' else Nothing)],
            Span None [Text ''History'']])"

definition renderChangesSidebar :: "IRepositoryProps \<Rightarrow> element" where
  "renderChangesSidebar p =
     (let branch' = (case tip (rp_state p) of Tip_Valid b \<Rightarrow> Some b | _ \<Rightarrow> None);
          localCommitSHAs' = localCommitSHAs (rp_state p);
          mostRecentLocalCommitSHA = (case localCommitSHAs' of [] \<Rightarrow> None | s # _ \<Rightarrow> Some s);
          mostRecentLocalCommit' =
            (case mostRecentLocalCommitSHA of
               None \<Rightarrow> None
             | Some s \<Rightarrow> if s = [] then None else commits (rp_state p) s);
          availableWidth' = rp_sidebarWidth p - 1
      in ChangesSidebarElement
           \<lparr>repository = rp_repository p,
            changes = changesState (rp_state p),
            dispatcher = rp_dispatcher p,
            commitAuthor = st_commitAuthor (rp_state p),
            branch = (case branch' of Some b \<Rightarrow> Some (branch_name b) | None \<Rightarrow> None),
            gitHubUsers = st_gitHubUsers (rp_state p),
            emoji = rp_emoji p,
            mostRecentLocalCommit = mostRecentLocalCommit',
            issuesStore = rp_issuesStore p,
            availableWidth = availableWidth',
            appStore = rp_appStore p,
            isCommitting = st_isCommitting (rp_state p),
            isPushPullFetchInProgress = st_isPushPullFetchInProgress (rp_state p),
            gitHubUserStore = rp_gitHubUserStore p,
            askForConfirmationOnDiscardChanges = rp_askForConfirmationOnDiscardChanges p,
            accounts = rp_accounts p\<rparr>)"

definition renderHistorySidebar :: "IRepositoryProps \<Rightarrow> element" where
  "renderHistorySidebar p =
     HistorySidebarElement
       \<lparr>hs_repository = rp_repository p,
        hs_dispatcher = rp_dispatcher p,
        hs_history = historyState (rp_state p),
        hs_gitHubUsers = st_gitHubUsers (rp_state p),
        hs_emoji = rp_emoji p,
        hs_commits = commits (rp_state p),
        hs_localCommitSHAs = localCommitSHAs (rp_state p)\<rparr>"

definition renderSidebar :: "IRepositoryProps \<Rightarrow> element" where
  "renderSidebar p =
     UiView (Some ''sidebar'') []
       [renderTabs p,
        UiView None [(''position'', ''relative''), (''display'', ''flex''), (''flexDirection'', ''row'')]
          [UiView None
             [(''left'', ''0''), (''bottom'', ''0''), (''top'', ''0''),
              (''borderRight'', ''1px solid #24292e''), (''zIndex'', ''2''), (''flex'', ''1'')]
             [renderChangesSidebar p],
           UiView None
             [(''right'', ''0''), (''bottom'', ''0''), (''marginTop'', ''70''), (''zIndex'', ''1''),
              (''borderTop'', ''1px solid #e1e4e8''), (''flex'', ''1'')]
             [renderHistorySidebar p]]]"

text \<open>
  \<^verbatim>\<open>findFileWithID\<close> of \<^verbatim>\<open>models/status\<close>: the first file with the given id.
\<close>

definition findFileWithID :: "WorkingDirectoryStatus \<Rightarrow> string \<Rightarrow> WorkingDirectoryFileChange option" where
  "findFileWithID wd i = find (\<lambda>f. file_id f = i) (files wd)"

definition renderContent :: "IRepositoryProps \<Rightarrow> error + element" where
  "renderContent p =
     (let selectedSection' = selectedSection (rp_state p)
      in if selectedSection' = RepositorySection_Changes then
           (let changesState' = changesState (rp_state p);
                selectedFile = (case selectedFileID changesState' of
                                  None \<Rightarrow> None
                                | Some i \<Rightarrow> if i = [] then None
                                            else findFileWithID (workingDirectory changesState') i)
            in case (files (workingDirectory changesState'), selectedFile, diff changesState') of
                 (_ # _, Some file, Some d) \<Rightarrow>
                   Inr (ChangesElement
                          \<lparr>ch_repository = rp_repository p,
                           ch_dispatcher = rp_dispatcher p,
                           ch_file = file,
                           ch_diff = d,
                           ch_imageDiffType = rp_imageDiffType p\<rparr>)
               | _ \<Rightarrow> Inr NoChangesElement)
         else if selectedSection' = RepositorySection_History then
           Inr (HistoryElement
                  \<lparr>hi_repository = rp_repository p,
                   hi_dispatcher = rp_dispatcher p,
                   hi_history = historyState (rp_state p),
                   hi_emoji = rp_emoji p,
                   hi_commits = commits (rp_state p),
                   hi_commitSummaryWidth = rp_commitSummaryWidth p,
                   hi_gitHubUsers = st_gitHubUsers (rp_state p),
                   hi_imageDiffType = rp_imageDiffType p\<rparr>)
         else assertNever selectedSection' ''Unknown repository section'')"

text \<open>
  \<^verbatim>\<open>{false && this.renderContent()}\<close>: the right operand of \<^verbatim>\<open>&&\<close> is evaluated only when
  the left one is true; otherwise the child is the left operand, \<^verbatim>\<open>false\<close>.
\<close>

definition render :: "IRepositoryProps \<Rightarrow> error + element" where
  "render p =
     (case (if False then renderContent p else Inr Nothing) of
        Inl e \<Rightarrow> Inl e
      | Inr content \<Rightarrow> Inr (UiView (Some ''repository'') [] [renderSidebar p, content]))"

record KeyboardEvent =
  ctrlKey :: bool
  shiftKey :: bool
  altKey :: bool
  metaKey :: bool
  key :: string

definition onKeyDown :: "IRepositoryProps \<Rightarrow> KeyboardEvent \<Rightarrow> effect list" where
  "onKeyDown p e =
     (if ctrlKey e \<and> key e = ''Tab'' then
        (let section = (if selectedSection (rp_state p) = RepositorySection_History
                        then RepositorySection_Changes else RepositorySection_History)
         in [Dispatch (rp_dispatcher p) (ChangeRepositorySection (rp_repository p) section),
             PreventDefault])
      else [])"

definition onTabClicked :: "IRepositoryProps \<Rightarrow> Tab \<Rightarrow> IRepositoryProps \<Rightarrow> effect list" where
  "onTabClicked this_props tab p =
     (let section = (if tab = Tab_History then RepositorySection_History else RepositorySection_Changes)
      in [Dispatch (rp_dispatcher this_props) (ChangeRepositorySection (rp_repository p) section)])"

text \<open>The element itself and every element below it.\<close>

fun subelements :: "element \<Rightarrow> element list" where
  "subelements (UiView i st cs) = UiView i st cs # concat (map subelements cs)"
| "subelements (TabBar t cs) = TabBar t cs # concat (map subelements cs)"
| "subelements (Span c cs) = Span c cs # concat (map subelements cs)"
| "subelements e = [e]"

fun isContentPanel :: "element \<Rightarrow> bool" where
  "isContentPanel NoChangesElement = True"
| "isContentPanel (ChangesElement _) = True"
| "isContentPanel (HistoryElement _) = True"
| "isContentPanel _ = False"

fun isChangesSidebar :: "element \<Rightarrow> bool" where
  "isChangesSidebar (ChangesSidebarElement _) = True"
| "isChangesSidebar _ = False"

fun isHistorySidebar :: "element \<Rightarrow> bool" where
  "isHistorySidebar (HistorySidebarElement _) = True"
| "isHistorySidebar _ = False"

section \<open>Example inputs\<close>

definition exGitHubRepository :: GitHubRepository where
  "exGitHubRepository = \<lparr>gh_name = ''desktop'', gh_endpoint = ''https://api.github.com''\<rparr>"

definition exLocalRepository :: Repository where
  "exLocalRepository =
     \<lparr>repository_id = 1, repository_name = ''local'', repository_path = ''/work/local'',
      gitHubRepository = None\<rparr>"

definition exLinkedRepository :: Repository where
  "exLinkedRepository =
     \<lparr>repository_id = 2, repository_name = ''desktop'', repository_path = ''/work/desktop'',
      gitHubRepository = Some exGitHubRepository\<rparr>"

definition exAccount :: Account where
  "exAccount = \<lparr>account_login = ''jane'', account_endpoint = ''https://api.github.com''\<rparr>"

definition exEnterpriseAccount :: Account where
  "exEnterpriseAccount = \<lparr>account_login = ''jane'', account_endpoint = ''https://ghe.example.com/api/v3''\<rparr>"

definition exFileNone :: WorkingDirectoryFileChange where
  "exFileNone =
     \<lparr>file_path = ''README.md'', file_id = ''M+README.md'',
      selection = \<lparr>getSelectionType = DiffSelectionType_None\<rparr>\<rparr>"

definition exFilePartial :: WorkingDirectoryFileChange where
  "exFilePartial =
     \<lparr>file_path = ''app.ts'', file_id = ''M+app.ts'',
      selection = \<lparr>getSelectionType = DiffSelectionType_Partial\<rparr>\<rparr>"

definition exChanges :: IChangesState where
  "exChanges =
     \<lparr>workingDirectory = \<lparr>files = [exFileNone, exFilePartial]\<rparr>,
      selectedFileID = Some ''M+README.md'', diff = Some 0,
      commitMessage = None, contextualCommitMessage = None, showCoAuthoredBy = False\<rparr>"

definition exJane :: IGitHubUser where
  "exJane = \<lparr>user_login = ''jane'', user_name = ''Jane''\<rparr>"

text \<open>
  A sidebar on a repository without a linked GitHub repository, confirmation switched on,
  no account, the author \<open>Jane@Example.com\<close> and her profile under the lower-case key.
\<close>

definition exProps :: IChangesSidebarProps where
  "exProps =
     \<lparr>repository = exLocalRepository,
      changes = exChanges,
      dispatcher = 0,
      commitAuthor = Some \<lparr>identity_name = ''Jane'', email = ''Jane@Example.com''\<rparr>,
      branch = Some ''master'',
      gitHubUsers = [''jane@example.com'' \<mapsto> exJane],
      emoji = Map.empty,
      mostRecentLocalCommit = None,
      issuesStore = 0,
      availableWidth = 249,
      appStore = 0,
      isCommitting = False,
      isPushPullFetchInProgress = False,
      gitHubUserStore = 0,
      askForConfirmationOnDiscardChanges = True,
      accounts = \<lparr>addr = 100, elems = []\<rparr>\<rparr>"

text \<open>
  An update of \<open>exProps\<close> to the linked repository, with a new emoji map and a new accounts
  array that holds the matching account.
\<close>

definition exNextProps :: IChangesSidebarProps where
  "exNextProps =
     exProps\<lparr>repository := exLinkedRepository,
             emoji := ['':tada:'' \<mapsto> ''tada.png''],
             accounts := \<lparr>addr = 101, elems = [exAccount]\<rparr>\<rparr>"

text \<open>A repository view whose selected section is neither of the two sections.\<close>

definition exRepositoryProps :: IRepositoryProps where
  "exRepositoryProps =
     \<lparr>rp_repository = exLinkedRepository,
      rp_state =
        \<lparr>selectedSection = RepositorySection_Other 7,
         changesState = exChanges,
         historyState = 0,
         tip = Tip_Valid \<lparr>branch_name = ''master''\<rparr>,
         localCommitSHAs = [],
         commits = Map.empty,
         st_commitAuthor = None,
         st_gitHubUsers = Map.empty,
         st_isCommitting = False,
         st_isPushPullFetchInProgress = False\<rparr>,
      rp_dispatcher = 0,
      rp_emoji = Map.empty,
      rp_sidebarWidth = 250,
      rp_commitSummaryWidth = 250,
      rp_issuesStore = 0,
      rp_appStore = 0,
      rp_gitHubUserStore = 0,
      rp_imageDiffType = 0,
      rp_askForConfirmationOnDiscardChanges = True,
      rp_accounts = \<lparr>addr = 100, elems = []\<rparr>\<rparr>"

definition exCtrlTab :: KeyboardEvent where
  "exCtrlTab = \<lparr>ctrlKey = True, shiftKey = False, altKey = False, metaKey = False, key = ''Tab''\<rparr>"

section \<open>The provider cache of ChangesSidebar\<close>

lemma receiveProps_rebuilds:
  assumes "repository_id (repository p) \<noteq> repository_id (repository (props this)) \<or>
           autocompletionProviders this = None \<or>
           addr (accounts p) \<noteq> addr (accounts (props this))"
  shows "autocompletionProviders (receiveProps p this) =
           Some \<lparr>addr = nextAddr this,
                 elems = EmojiAutocompletionProvider (emoji (props this)) #
                   (case gitHubRepository (repository p) of
                      None \<Rightarrow> []
                    | Some g \<Rightarrow>
                        [IssuesAutocompletionProvider (issuesStore p) g (dispatcher p),
                         UserAutocompletionProvider (gitHubUserStore p) g
                           (find (\<lambda>a. account_endpoint a = gh_endpoint g)
                              (elems (accounts (props this))))])\<rparr>"
    and "nextAddr (receiveProps p this) = Suc (nextAddr this)"
    and "props (receiveProps p this) = props this"
  using assms by (auto simp: receiveProps_def Let_def split: option.splits)

lemma allocated_constructor: "allocated (constructor_ChangesSidebar a p)"
  by (simp add: allocated_def constructor_ChangesSidebar_def receiveProps_def Let_def)

lemma allocated_deliverProps: "allocated this \<Longrightarrow> allocated (deliverProps q this)"
  by (auto simp: allocated_def deliverProps_def componentWillReceiveProps_def
        receiveProps_def Let_def split: option.splits)

lemma allocated_deliverAll: "allocated this \<Longrightarrow> allocated (deliverAll this qs)"
  by (induction qs arbitrary: this) (simp_all add: allocated_deliverProps)

lemma allocated_lifecycle: "allocated (lifecycle a p0 qs)"
  by (simp add: lifecycle_def allocated_deliverAll allocated_constructor)

lemma deliverProps_step:
  fixes q :: IChangesSidebarProps and this :: ChangesSidebar
  assumes "allocated this"
  defines "changed \<equiv> repository_id (repository q) \<noteq> repository_id (repository (props this)) \<or>
                      addr (accounts q) \<noteq> addr (accounts (props this)) \<or>
                      autocompletionProviders this = None"
  shows "changed \<longleftrightarrow> map_option addr (autocompletionProviders (deliverProps q this)) = Some (nextAddr this)"
    and "changed \<longleftrightarrow> map_option addr (autocompletionProviders (deliverProps q this))
                       \<noteq> map_option addr (autocompletionProviders this)"
    and "\<not> changed \<longrightarrow> autocompletionProviders (deliverProps q this) = autocompletionProviders this"
  using assms
  by (auto simp: allocated_def deliverProps_def componentWillReceiveProps_def
        receiveProps_def Let_def split: option.splits)

lemma find_found_iff: "(\<exists>y. find P xs = Some y) \<longleftrightarrow> (\<exists>x \<in> set xs. P x)"
  using find_None_iff [of P xs] by auto

text \<open>
  C1. After construction and any sequence of property updates, the next update builds a
  new provider list exactly when the incoming repository id differs from the current one,
  or the incoming accounts array is another object than the current one, or no list exists
  yet: then the list is a newly allocated object, at an address other than the old list's.
  In every other update the component keeps the very same list. Construction itself always
  builds a list, since none exists before.
\<close>

theorem provider_list_rebuilt_iff_identity_changed:
  "let this = lifecycle a p0 qs;
       this' = deliverProps q this;
       changed = (repository_id (repository q) \<noteq> repository_id (repository (props this)) \<or>
                  addr (accounts q) \<noteq> addr (accounts (props this)) \<or>
                  autocompletionProviders this = None)
   in (changed \<longleftrightarrow> map_option addr (autocompletionProviders this') = Some (nextAddr this)) \<and>
      (changed \<longleftrightarrow> map_option addr (autocompletionProviders this')
                    \<noteq> map_option addr (autocompletionProviders this)) \<and>
      (\<not> changed \<longrightarrow> autocompletionProviders this' = autocompletionProviders this) \<and>
      map_option addr (autocompletionProviders (constructor_ChangesSidebar a p0)) = Some a"
proof -
  have al: "allocated (lifecycle a p0 qs)" by (rule allocated_lifecycle)
  have c: "map_option addr (autocompletionProviders (constructor_ChangesSidebar a p0)) = Some a"
    by (simp add: constructor_ChangesSidebar_def receiveProps_def Let_def)
  show ?thesis
    unfolding Let_def
    using deliverProps_step(1)[OF al, of q] deliverProps_step(2)[OF al, of q]
      deliverProps_step(3)[OF al, of q] c
    by blast
qed

text \<open>
  At \<open>exProps\<close>: an update that changes only the branch keeps the list built by the
  constructor at address 0; the update to \<open>exNextProps\<close> (another repository id) builds a
  new one at address 1.
\<close>

theorem provider_list_rebuilt_iff_identity_changed_witness:
  "autocompletionProviders (deliverProps (exProps\<lparr>branch := None\<rparr>) (lifecycle 0 exProps [])) =
     autocompletionProviders (lifecycle 0 exProps []) \<and>
   map_option addr (autocompletionProviders (lifecycle 0 exProps [])) = Some 0 \<and>
   map_option addr (autocompletionProviders (deliverProps exNextProps (lifecycle 0 exProps []))) = Some 1"
  using provider_list_rebuilt_iff_identity_changed [of 0 exProps "[]" exNextProps]
    provider_list_rebuilt_iff_identity_changed [of 0 exProps "[]" "exProps\<lparr>branch := None\<rparr>"]
  by (simp add: Let_def lifecycle_def constructor_ChangesSidebar_def receiveProps_def
        exProps_def exNextProps_def exLocalRepository_def exLinkedRepository_def)

text \<open>
  C2 (amended). Whenever the provider list is rebuilt: for a repository with no linked
  GitHub repository the list is exactly one provider (emoji); for a repository with a linked
  GitHub repository it is exactly three providers, emoji, issues and user, in this order.
  The user provider is always there; it is bound to an account exactly when the accounts
  list of the component's current properties holds an account whose endpoint equals the
  linked repository's endpoint, and to no account otherwise.
\<close>

theorem rebuilt_list_contents:
  assumes "repository_id (repository p) \<noteq> repository_id (repository (props this)) \<or>
           autocompletionProviders this = None \<or>
           addr (accounts p) \<noteq> addr (accounts (props this))"
  shows "\<exists>arr. autocompletionProviders (receiveProps p this) = Some arr \<and>
           (case gitHubRepository (repository p) of
              None \<Rightarrow> \<exists>m. elems arr = [EmojiAutocompletionProvider m]
            | Some g \<Rightarrow>
                \<exists>m s d u account.
                  elems arr = [EmojiAutocompletionProvider m, IssuesAutocompletionProvider s g d,
                               UserAutocompletionProvider u g account] \<and>
                  (account \<noteq> None \<longleftrightarrow>
                     (\<exists>a \<in> set (elems (accounts (props this))).
                        account_endpoint a = gh_endpoint g)))"
  using receiveProps_rebuilds(1)[OF assms]
  by (cases "gitHubRepository (repository p)") (simp_all add: find_found_iff)

text \<open>
  The update from \<open>exProps\<close> to \<open>exNextProps\<close> rebuilds the list for a linked repository.
\<close>

theorem rebuilt_list_contents_witness:
  "\<exists>arr. autocompletionProviders (receiveProps exNextProps (constructor_ChangesSidebar 0 exProps)) = Some arr \<and>
     (\<exists>m s d u account.
        elems arr = [EmojiAutocompletionProvider m, IssuesAutocompletionProvider s exGitHubRepository d,
                     UserAutocompletionProvider u exGitHubRepository account])"
proof -
  have h: "repository_id (repository exNextProps) \<noteq>
             repository_id (repository (props (constructor_ChangesSidebar 0 exProps))) \<or>
           autocompletionProviders (constructor_ChangesSidebar 0 exProps) = None \<or>
           addr (accounts exNextProps) \<noteq> addr (accounts (props (constructor_ChangesSidebar 0 exProps)))"
    by (simp add: constructor_ChangesSidebar_def receiveProps_def Let_def exProps_def exNextProps_def
          exLocalRepository_def exLinkedRepository_def)
  have g: "gitHubRepository (repository exNextProps) = Some exGitHubRepository"
    by (simp add: exNextProps_def exLinkedRepository_def)
  show ?thesis
    using rebuilt_list_contents [OF h] by (simp add: g) blast
qed

text \<open>
  The claim as first stated, with a user provider only when an account matches, fails:
  for the linked repository and an empty accounts list the third provider of the
  constructed list is a user provider.
\<close>

theorem user_provider_without_account_counterexample:
  "elems (accounts (exProps\<lparr>repository := exLinkedRepository\<rparr>)) = [] \<and>
   map is_User (elems (the (autocompletionProviders
     (constructor_ChangesSidebar 0 (exProps\<lparr>repository := exLinkedRepository\<rparr>))))) =
     [False, False, True]"
  by (simp add: constructor_ChangesSidebar_def receiveProps_def Let_def exProps_def exLinkedRepository_def)

text \<open>
  C10. When a property update rebuilds the provider list, the emoji provider is built from
  the emoji map of the previous properties and the account of the user provider is looked
  up in the accounts list of the previous properties; the linked repository, the stores
  and the dispatcher come from the incoming properties.
\<close>

theorem rebuild_reads_previous_props:
  assumes "repository_id (repository q) \<noteq> repository_id (repository (props this)) \<or>
           autocompletionProviders this = None \<or>
           addr (accounts q) \<noteq> addr (accounts (props this))"
  shows "map_option elems (autocompletionProviders (deliverProps q this)) =
           Some (EmojiAutocompletionProvider (emoji (props this)) #
                 (case gitHubRepository (repository q) of
                    None \<Rightarrow> []
                  | Some g \<Rightarrow>
                      [IssuesAutocompletionProvider (issuesStore q) g (dispatcher q),
                       UserAutocompletionProvider (gitHubUserStore q) g
                         (find (\<lambda>a. account_endpoint a = gh_endpoint g)
                            (elems (accounts (props this))))]))"
  using receiveProps_rebuilds(1)[OF assms]
  by (simp add: deliverProps_def componentWillReceiveProps_def)

text \<open>
  The update from \<open>exProps\<close> to \<open>exNextProps\<close>: the incoming emoji map has an entry and
  the incoming accounts hold the matching account, yet the rebuilt emoji provider holds the
  previous, empty map and the user provider has no account.
\<close>

theorem rebuild_reads_previous_props_witness:
  "emoji exNextProps '':tada:'' = Some ''tada.png'' \<and>
   find (\<lambda>a. account_endpoint a = gh_endpoint exGitHubRepository) (elems (accounts exNextProps))
     = Some exAccount \<and>
   map_option elems (autocompletionProviders
      (deliverProps exNextProps (constructor_ChangesSidebar 0 exProps))) =
     Some [EmojiAutocompletionProvider Map.empty,
           IssuesAutocompletionProvider 0 exGitHubRepository 0,
           UserAutocompletionProvider 0 exGitHubRepository None]"
proof -
  have h: "repository_id (repository exNextProps) \<noteq>
             repository_id (repository (props (constructor_ChangesSidebar 0 exProps))) \<or>
           autocompletionProviders (constructor_ChangesSidebar 0 exProps) = None \<or>
           addr (accounts exNextProps) \<noteq> addr (accounts (props (constructor_ChangesSidebar 0 exProps)))"
    by (simp add: constructor_ChangesSidebar_def receiveProps_def Let_def exProps_def exNextProps_def
          exLocalRepository_def exLinkedRepository_def)
  have pr: "props (constructor_ChangesSidebar 0 exProps) = exProps"
    by (simp add: constructor_ChangesSidebar_def receiveProps_def Let_def)
  have old: "emoji exProps = Map.empty" "elems (accounts exProps) = []"
    by (simp_all add: exProps_def)
  have new: "gitHubRepository (repository exNextProps) = Some exGitHubRepository"
    "issuesStore exNextProps = 0" "dispatcher exNextProps = 0" "gitHubUserStore exNextProps = 0"
    "emoji exNextProps '':tada:'' = Some ''tada.png''"
    "elems (accounts exNextProps) = [exAccount]"
    by (simp_all add: exNextProps_def exProps_def exLinkedRepository_def)
  have found: "account_endpoint exAccount = gh_endpoint exGitHubRepository"
    by (simp add: exAccount_def exGitHubRepository_def)
  show ?thesis
    using rebuild_reads_previous_props [OF h]
    by (simp add: pr old new found)
qed

section \<open>The handlers of ChangesSidebar\<close>

lemma fileAtRow_miss:
  "\<not> (0 \<le> row \<and> row < int (length fs)) \<Longrightarrow> fileAtRow fs row = None"
  by (simp add: fileAtRow_def)

lemma fileAtRow_hit:
  "0 \<le> row \<Longrightarrow> row < int (length fs) \<Longrightarrow> fileAtRow fs row = Some (fs ! nat row)"
  by (simp add: fileAtRow_def)

lemma find_path_miss:
  "path \<notin> file_path ` set fs \<Longrightarrow> find (\<lambda>f. file_path f = path) fs = None"
  by (auto simp: find_None_iff)

text \<open>
  C3 (amended). For an inclusion toggle by file path (\<open>onIncludeChanged\<close>) where no file
  has that path, and for an inclusion toggle by row (\<open>onToggleInclude\<close>) where the row is
  outside the file list, the handler writes one line to the error console and does nothing
  else: no call on the dispatcher, and the handler returns normally.
\<close>

theorem inclusion_toggle_miss_is_logged_and_dropped:
  "(path \<notin> file_path ` set (files (workingDirectory (changes p))) \<longrightarrow>
      onIncludeChanged p path include =
        [ConsoleError (''unable to find working directory file to apply included change: '' @ path)]) \<and>
   (\<not> (0 \<le> row \<and> row < int (length (files (workingDirectory (changes p))))) \<longrightarrow>
      onToggleInclude p row = [ConsoleError ''keyboard selection toggle despite no file - what?''])"
  by (simp add: onIncludeChanged_def onToggleInclude_def find_path_miss fileAtRow_miss)

text \<open>
  A path that no file of \<open>exProps\<close> has, and row 5 of its two files.
\<close>

theorem inclusion_toggle_miss_is_logged_and_dropped_witness:
  "''nope'' \<notin> file_path ` set (files (workingDirectory (changes exProps))) \<and>
   onIncludeChanged exProps ''nope'' True =
     [ConsoleError ''unable to find working directory file to apply included change: nope''] \<and>
   \<not> (0 \<le> (5::int) \<and> 5 < int (length (files (workingDirectory (changes exProps))))) \<and>
   onToggleInclude exProps 5 = [ConsoleError ''keyboard selection toggle despite no file - what?'']"
proof -
  have a: "''nope'' \<notin> file_path ` set (files (workingDirectory (changes exProps)))"
    by (simp add: exProps_def exChanges_def exFileNone_def exFilePartial_def)
  have b: "\<not> (0 \<le> (5::int) \<and> 5 < int (length (files (workingDirectory (changes exProps)))))"
    by (simp add: exProps_def exChanges_def)
  show ?thesis
    using a b inclusion_toggle_miss_is_logged_and_dropped [of "''nope''" exProps True 5]
    by simp
qed

text \<open>
  The claim as first stated also covers \<open>onFileSelectionChanged\<close>, and fails there:
  for row 5 of two files nothing is logged and the dispatcher is called, with
  \<^verbatim>\<open>undefined\<close> as the file.
\<close>

theorem file_selection_miss_is_forwarded_counterexample:
  "fileAtRow (files (workingDirectory (changes exProps))) 5 = None \<and>
   onFileSelectionChanged exProps 5 =
     [Dispatch 0 (ChangeChangesSelection exLocalRepository None)]"
  by (simp add: onFileSelectionChanged_def fileAtRow_def exProps_def exChanges_def)

text \<open>
  C5. A discard request for one file or for a list of files: without confirmation the only
  effect is the dispatcher's discard of exactly these files; with confirmation the only
  effect is the request for the confirm-discard popup carrying exactly these files, and no
  discard.
\<close>

theorem discard_asks_for_confirmation_when_enabled:
  "(\<not> askForConfirmationOnDiscardChanges p \<longrightarrow>
      onDiscardChanges p file = [Dispatch (dispatcher p) (DiscardChanges (repository p) [file])] \<and>
      onDiscardAllChanges p fs = [Dispatch (dispatcher p) (DiscardChanges (repository p) fs)]) \<and>
   (askForConfirmationOnDiscardChanges p \<longrightarrow>
      onDiscardChanges p file =
        [Dispatch (dispatcher p) (ShowPopup (ConfirmDiscardChanges (repository p) [file]))] \<and>
      onDiscardAllChanges p fs =
        [Dispatch (dispatcher p) (ShowPopup (ConfirmDiscardChanges (repository p) fs))])"
  by (simp add: onDiscardChanges_def onDiscardAllChanges_def)

text \<open>
  \<open>exProps\<close> asks for confirmation; with the flag cleared it discards at once.
\<close>

theorem discard_asks_for_confirmation_when_enabled_witness:
  "askForConfirmationOnDiscardChanges exProps \<and>
   onDiscardChanges exProps exFileNone =
     [Dispatch 0 (ShowPopup (ConfirmDiscardChanges exLocalRepository [exFileNone]))] \<and>
   onDiscardAllChanges exProps [exFileNone, exFilePartial] =
     [Dispatch 0 (ShowPopup (ConfirmDiscardChanges exLocalRepository [exFileNone, exFilePartial]))] \<and>
   \<not> askForConfirmationOnDiscardChanges (exProps\<lparr>askForConfirmationOnDiscardChanges := False\<rparr>) \<and>
   onDiscardChanges (exProps\<lparr>askForConfirmationOnDiscardChanges := False\<rparr>) exFileNone =
     [Dispatch 0 (DiscardChanges exLocalRepository [exFileNone])] \<and>
   onDiscardAllChanges (exProps\<lparr>askForConfirmationOnDiscardChanges := False\<rparr>) [exFileNone, exFilePartial] =
     [Dispatch 0 (DiscardChanges exLocalRepository [exFileNone, exFilePartial])]"
  using discard_asks_for_confirmation_when_enabled [of exProps exFileNone "[exFileNone, exFilePartial]"]
    discard_asks_for_confirmation_when_enabled
      [of "exProps\<lparr>askForConfirmationOnDiscardChanges := False\<rparr>" exFileNone "[exFileNone, exFilePartial]"]
  by (simp add: exProps_def)

text \<open>
  C6. A keyboard-sourced click on a row that holds a file asks the dispatcher to set the
  file's inclusion to true when its selection state is none, and to false when it is
  partial or all.
\<close>

theorem keyboard_toggle_inverts_inclusion:
  assumes "0 \<le> row" and "row < int (length (files (workingDirectory (changes p))))"
    and "kind source = ''keyboard''"
  shows "onChangedItemClick p row source =
           [Dispatch (dispatcher p)
              (ChangeFileIncluded (repository p) (files (workingDirectory (changes p)) ! nat row)
                 (case getSelectionType (selection (files (workingDirectory (changes p)) ! nat row)) of
                    DiffSelectionType_None \<Rightarrow> True
                  | DiffSelectionType_Partial \<Rightarrow> False
                  | DiffSelectionType_All \<Rightarrow> False))]"
  using assms
  by (simp add: onChangedItemClick_def onToggleInclude_def fileAtRow_hit Let_def
        split: DiffSelectionType.split)

text \<open>
  Row 0 of \<open>exProps\<close> is not selected and gets included; row 1 is partially selected and
  gets excluded.
\<close>

theorem keyboard_toggle_inverts_inclusion_witness:
  "onChangedItemClick exProps 0 \<lparr>kind = ''keyboard''\<rparr> =
     [Dispatch 0 (ChangeFileIncluded exLocalRepository exFileNone True)] \<and>
   onChangedItemClick exProps 1 \<lparr>kind = ''keyboard''\<rparr> =
     [Dispatch 0 (ChangeFileIncluded exLocalRepository exFilePartial False)]"
proof -
  have fs: "files (workingDirectory (changes exProps)) = [exFileNone, exFilePartial]"
    by (simp add: exProps_def exChanges_def)
  have k: "kind \<lparr>kind = ''keyboard''\<rparr> = ''keyboard''" by simp
  have r0: "(0::int) \<le> 0" "(0::int) < int (length (files (workingDirectory (changes exProps))))"
    by (simp_all add: fs)
  have r1: "(0::int) \<le> 1" "(1::int) < int (length (files (workingDirectory (changes exProps))))"
    by (simp_all add: fs)
  have sel: "getSelectionType (selection exFileNone) = DiffSelectionType_None"
    "getSelectionType (selection exFilePartial) = DiffSelectionType_Partial"
    by (simp_all add: exFileNone_def exFilePartial_def)
  have d: "dispatcher exProps = 0" "repository exProps = exLocalRepository"
    by (simp_all add: exProps_def)
  show ?thesis
    using keyboard_toggle_inverts_inclusion [OF r0 k] keyboard_toggle_inverts_inclusion [OF r1 k]
    by (simp add: fs sel d)
qed

text \<open>
  C8 (amended). For an author with a non-empty email the profile shown is the value of
  \<open>gitHubUsers\<close> at the lower-cased email (none when the key is absent), so the email
  \<open>Jane@Example.com\<close> resolves to whatever is stored at \<open>jane@example.com\<close>; there is no
  profile when there is no author, and none when the author's email is the empty string,
  whatever the mapping holds.
\<close>

theorem author_profile_by_lowercased_email:
  "(commitAuthor p = None \<longrightarrow> render_user p = None) \<and>
   (\<forall>a. commitAuthor p = Some a \<and> email a \<noteq> [] \<longrightarrow>
        render_user p = gitHubUsers p (toLowerCase (email a))) \<and>
   (\<forall>a. commitAuthor p = Some a \<and> email a = ''Jane@Example.com'' \<longrightarrow>
        render_user p = gitHubUsers p ''jane@example.com'') \<and>
   (\<forall>a. commitAuthor p = Some a \<and> email a = [] \<longrightarrow> render_user p = None)"
proof -
  have l: "toLowerCase ''Jane@Example.com'' = ''jane@example.com''"
    by code_simp
  show ?thesis
    by (auto simp: render_user_def l)
qed

text \<open>
  \<open>Jane@Example.com\<close> resolves to the profile stored at \<open>jane@example.com\<close>, and an email
  that starts with U+00C9 to the profile stored under U+00E9; an empty mapping, a missing
  author and an empty email give no profile.
\<close>

theorem author_profile_by_lowercased_email_witness:
  "render_user exProps = Some exJane \<and>
   render_user (exProps\<lparr>commitAuthor := Some \<lparr>identity_name = ''Eric'', email = CHR 0xC9 # ''ric@X.com''\<rparr>,
                       gitHubUsers := [CHR 0xE9 # ''ric@x.com'' \<mapsto> exJane]\<rparr>) = Some exJane \<and>
   render_user (exProps\<lparr>gitHubUsers := Map.empty\<rparr>) = None \<and>
   render_user (exProps\<lparr>commitAuthor := None\<rparr>) = None \<and>
   render_user (exProps\<lparr>commitAuthor := Some \<lparr>identity_name = ''Jane'', email = []\<rparr>\<rparr>) = None"
proof -
  have l: "toLowerCase (CHR 0xC9 # ''ric@X.com'') = CHR 0xE9 # ''ric@x.com''"
    by code_simp
  have lj: "toLowerCase ''Jane@Example.com'' = ''jane@example.com''"
    by code_simp
  have a: "commitAuthor exProps = Some \<lparr>identity_name = ''Jane'', email = ''Jane@Example.com''\<rparr>"
    "gitHubUsers exProps ''jane@example.com'' = Some exJane"
    by (simp_all add: exProps_def)
  show ?thesis
    using author_profile_by_lowercased_email [of exProps]
      author_profile_by_lowercased_email
        [of "exProps\<lparr>commitAuthor := Some \<lparr>identity_name = ''Eric'', email = CHR 0xC9 # ''ric@X.com''\<rparr>,
                      gitHubUsers := [CHR 0xE9 # ''ric@x.com'' \<mapsto> exJane]\<rparr>"]
      author_profile_by_lowercased_email [of "exProps\<lparr>gitHubUsers := Map.empty\<rparr>"]
      author_profile_by_lowercased_email [of "exProps\<lparr>commitAuthor := None\<rparr>"]
      author_profile_by_lowercased_email
        [of "exProps\<lparr>commitAuthor := Some \<lparr>identity_name = ''Jane'', email = []\<rparr>\<rparr>"]
    by (simp add: a l lj)
qed

text \<open>
  The claim as first stated, for every email, fails at the empty email: the mapping has a
  profile at the lower-cased email, and no profile is shown.
\<close>

theorem empty_email_profile_counterexample:
  "gitHubUsers (exProps\<lparr>commitAuthor := Some \<lparr>identity_name = ''Jane'', email = []\<rparr>,
                      gitHubUsers := [[] \<mapsto> exJane]\<rparr>) (toLowerCase []) = Some exJane \<and>
   render_user (exProps\<lparr>commitAuthor := Some \<lparr>identity_name = ''Jane'', email = []\<rparr>,
                      gitHubUsers := [[] \<mapsto> exJane]\<rparr>) = None"
  by (simp add: render_user_def toLowerCase_def)

section \<open>Rendering and keys of RepositoryView\<close>

lemma render_eq:
  "render p = Inr (UiView (Some ''repository'') [] [renderSidebar p, Nothing])"
  by (simp add: render_def)

text \<open>
  C4 (amended). \<open>renderContent\<close> halts with the fatal error of the exhaustiveness check
  exactly when the selected section is neither Changes nor History. \<open>render\<close> never calls
  \<open>renderContent\<close>, so rendering a RepositoryView never halts with an error, whatever the
  selected section is.
\<close>

theorem unknown_section_fatal_only_in_renderContent:
  "(renderContent p = Inl (FatalError ''Unknown repository section'') \<longleftrightarrow>
      selectedSection (rp_state p) \<noteq> RepositorySection_Changes \<and>
      selectedSection (rp_state p) \<noteq> RepositorySection_History) \<and>
   (\<forall>err. render p \<noteq> Inl err)"
  by (auto simp: renderContent_def assertNever_def render_eq Let_def
        split: list.splits option.splits)

text \<open>
  \<open>renderContent\<close> on \<open>exRepositoryProps\<close>, whose section is neither of the two.
\<close>

theorem unknown_section_fatal_only_in_renderContent_witness:
  "selectedSection (rp_state exRepositoryProps) = RepositorySection_Other 7 \<and>
   renderContent exRepositoryProps = Inl (FatalError ''Unknown repository section'')"
proof -
  have sel: "selectedSection (rp_state exRepositoryProps) = RepositorySection_Other 7"
    by (simp add: exRepositoryProps_def)
  show ?thesis
    using unknown_section_fatal_only_in_renderContent [of exRepositoryProps, THEN conjunct1]
    by (simp add: sel)
qed

text \<open>
  The claim as first stated fails: \<open>render\<close> on the same properties returns its tree, and
  the tab bar in it shows the History tab as selected.
\<close>

theorem render_unknown_section_counterexample:
  "selectedSection (rp_state exRepositoryProps) = RepositorySection_Other 7 \<and>
   render exRepositoryProps =
     Inr (UiView (Some ''repository'') [] [renderSidebar exRepositoryProps, Nothing]) \<and>
   renderTabs exRepositoryProps =
     TabBar Tab_History
       [Span (Some ''with-indicator'')
          [Span None [Text ''Changes''], Octicon ''indicator'' ''primitiveDot''],
        Span None [Text ''History'']]"
  by (simp add: render_def renderTabs_def exRepositoryProps_def exChanges_def)

text \<open>
  C7 (amended). A key event with the control key held and the key \<open>Tab\<close>, whatever the
  shift, alt and meta keys are (so Ctrl+Shift+Tab, Ctrl+Alt+Tab and Ctrl+Meta+Tab as well as
  Ctrl+Tab), while History is selected dispatches a change of section to Changes, and
  while Changes is selected a change to History; in both cases the default action is
  prevented. A key event without the control key, or with another key than \<open>Tab\<close>, has no
  effect: no dispatch, and the default action is not prevented. The shift, alt and meta
  keys never change what the handler does.
\<close>

theorem ctrl_tab_with_any_modifier_toggles_section:
  "(ctrlKey e \<and> key e = ''Tab'' \<longrightarrow>
      (selectedSection (rp_state p) = RepositorySection_History \<longrightarrow>
         onKeyDown p e =
           [Dispatch (rp_dispatcher p) (ChangeRepositorySection (rp_repository p) RepositorySection_Changes),
            PreventDefault]) \<and>
      (selectedSection (rp_state p) = RepositorySection_Changes \<longrightarrow>
         onKeyDown p e =
           [Dispatch (rp_dispatcher p) (ChangeRepositorySection (rp_repository p) RepositorySection_History),
            PreventDefault])) \<and>
   (\<not> (ctrlKey e \<and> key e = ''Tab'') \<longrightarrow> onKeyDown p e = []) \<and>
   onKeyDown p (e\<lparr>shiftKey := s, altKey := a, metaKey := m\<rparr>) = onKeyDown p e"
  by (simp add: onKeyDown_def)

text \<open>
  Ctrl+Tab from History and from Changes; Ctrl+Alt+Tab from History; Tab without the
  control key; another key with it.
\<close>

theorem ctrl_tab_with_any_modifier_toggles_section_witness:
  "onKeyDown (exRepositoryProps\<lparr>rp_state := (rp_state exRepositoryProps)\<lparr>selectedSection := RepositorySection_History\<rparr>\<rparr>) exCtrlTab =
     [Dispatch 0 (ChangeRepositorySection exLinkedRepository RepositorySection_Changes), PreventDefault] \<and>
   onKeyDown (exRepositoryProps\<lparr>rp_state := (rp_state exRepositoryProps)\<lparr>selectedSection := RepositorySection_Changes\<rparr>\<rparr>) exCtrlTab =
     [Dispatch 0 (ChangeRepositorySection exLinkedRepository RepositorySection_History), PreventDefault] \<and>
   onKeyDown (exRepositoryProps\<lparr>rp_state := (rp_state exRepositoryProps)\<lparr>selectedSection := RepositorySection_History\<rparr>\<rparr>) (exCtrlTab\<lparr>shiftKey := False, altKey := True, metaKey := False\<rparr>) =
     [Dispatch 0 (ChangeRepositorySection exLinkedRepository RepositorySection_Changes), PreventDefault] \<and>
   onKeyDown exRepositoryProps (exCtrlTab\<lparr>ctrlKey := False\<rparr>) = [] \<and>
   onKeyDown exRepositoryProps (exCtrlTab\<lparr>key := ''a''\<rparr>) = []"
proof -
  have h: "onKeyDown (exRepositoryProps\<lparr>rp_state := (rp_state exRepositoryProps)\<lparr>selectedSection := RepositorySection_History\<rparr>\<rparr>) exCtrlTab =
     [Dispatch 0 (ChangeRepositorySection exLinkedRepository RepositorySection_Changes), PreventDefault]"
    using ctrl_tab_with_any_modifier_toggles_section [of exCtrlTab "exRepositoryProps\<lparr>rp_state := (rp_state exRepositoryProps)\<lparr>selectedSection := RepositorySection_History\<rparr>\<rparr>"]
    by (simp add: exCtrlTab_def exRepositoryProps_def)
  have c: "onKeyDown (exRepositoryProps\<lparr>rp_state := (rp_state exRepositoryProps)\<lparr>selectedSection := RepositorySection_Changes\<rparr>\<rparr>) exCtrlTab =
     [Dispatch 0 (ChangeRepositorySection exLinkedRepository RepositorySection_History), PreventDefault]"
    using ctrl_tab_with_any_modifier_toggles_section [of exCtrlTab "exRepositoryProps\<lparr>rp_state := (rp_state exRepositoryProps)\<lparr>selectedSection := RepositorySection_Changes\<rparr>\<rparr>"]
    by (simp add: exCtrlTab_def exRepositoryProps_def)
  have m: "onKeyDown (exRepositoryProps\<lparr>rp_state := (rp_state exRepositoryProps)\<lparr>selectedSection := RepositorySection_History\<rparr>\<rparr>) (exCtrlTab\<lparr>shiftKey := False, altKey := True, metaKey := False\<rparr>) =
             onKeyDown (exRepositoryProps\<lparr>rp_state := (rp_state exRepositoryProps)\<lparr>selectedSection := RepositorySection_History\<rparr>\<rparr>) exCtrlTab"
    using ctrl_tab_with_any_modifier_toggles_section [of exCtrlTab "exRepositoryProps\<lparr>rp_state := (rp_state exRepositoryProps)\<lparr>selectedSection := RepositorySection_History\<rparr>\<rparr>" False True False]
    by simp
  have n: "onKeyDown exRepositoryProps (exCtrlTab\<lparr>ctrlKey := False\<rparr>) = []"
    using ctrl_tab_with_any_modifier_toggles_section [of "exCtrlTab\<lparr>ctrlKey := False\<rparr>" exRepositoryProps]
    by simp
  have k: "onKeyDown exRepositoryProps (exCtrlTab\<lparr>key := ''a''\<rparr>) = []"
    using ctrl_tab_with_any_modifier_toggles_section [of "exCtrlTab\<lparr>key := ''a''\<rparr>" exRepositoryProps]
    by simp
  show ?thesis using h c m n k by simp
qed

text \<open>
  The claim as first stated, with no effect for every key event other than Ctrl+Tab, fails:
  with the shift key held as well, the event is Ctrl+Shift+Tab, and the handler still
  dispatches the change of section and prevents the default action.
\<close>

theorem ctrl_shift_tab_dispatches_counterexample:
  "shiftKey (exCtrlTab\<lparr>shiftKey := True\<rparr>) \<and>
   \<not> shiftKey exCtrlTab \<and>
   onKeyDown (exRepositoryProps\<lparr>rp_state := (rp_state exRepositoryProps)\<lparr>selectedSection := RepositorySection_History\<rparr>\<rparr>) (exCtrlTab\<lparr>shiftKey := True\<rparr>) =
     [Dispatch 0 (ChangeRepositorySection exLinkedRepository RepositorySection_Changes), PreventDefault]"
  by (simp add: onKeyDown_def exCtrlTab_def exRepositoryProps_def)

text \<open>
  C9. Every rendering of RepositoryView succeeds and is the sidebar followed by an empty
  child: below the tab bar, one row (a flex container in row direction) holds the changes
  sidebar and the history sidebar next to each other, whatever the selected section is.
  The tree has exactly one changes sidebar, exactly one history sidebar and no content
  panel.
\<close>

theorem both_sidebars_rendered_no_content_panel:
  "\<exists>tree changesProps historyProps leftStyle rightStyle rowStyle.
     render p = Inr tree \<and>
     tree = UiView (Some ''repository'') []
              [UiView (Some ''sidebar'') []
                 [renderTabs p,
                  UiView None rowStyle
                    [UiView None leftStyle [ChangesSidebarElement changesProps],
                     UiView None rightStyle [HistorySidebarElement historyProps]]],
               Nothing] \<and>
     map_of rowStyle ''display'' = Some ''flex'' \<and>
     map_of rowStyle ''flexDirection'' = Some ''row'' \<and>
     length (filter isChangesSidebar (subelements tree)) = 1 \<and>
     length (filter isHistorySidebar (subelements tree)) = 1 \<and>
     filter isContentPanel (subelements tree) = []"
  by (simp add: render_def renderSidebar_def renderTabs_def renderChangesSidebar_def
        renderHistorySidebar_def Let_def)

text \<open>
  The tree of \<open>exRepositoryProps\<close>.
\<close>

theorem both_sidebars_rendered_no_content_panel_witness:
  "render exRepositoryProps =
     Inr (UiView (Some ''repository'') [] [renderSidebar exRepositoryProps, Nothing]) \<and>
   length (filter isChangesSidebar
     (subelements (UiView (Some ''repository'') [] [renderSidebar exRepositoryProps, Nothing]))) = 1 \<and>
   length (filter isHistorySidebar
     (subelements (UiView (Some ''repository'') [] [renderSidebar exRepositoryProps, Nothing]))) = 1 \<and>
   filter isContentPanel
     (subelements (UiView (Some ''repository'') [] [renderSidebar exRepositoryProps, Nothing])) = []"
proof -
  have r: "render exRepositoryProps =
             Inr (UiView (Some ''repository'') [] [renderSidebar exRepositoryProps, Nothing])"
    by (rule render_eq)
  from both_sidebars_rendered_no_content_panel [of exRepositoryProps]
  obtain tree where t: "render exRepositoryProps = Inr tree"
    and c: "length (filter isChangesSidebar (subelements tree)) = 1"
           "length (filter isHistorySidebar (subelements tree)) = 1"
           "filter isContentPanel (subelements tree) = []"
    by blast
  from t r have "tree = UiView (Some ''repository'') [] [renderSidebar exRepositoryProps, Nothing]"
    by simp
  with r c show ?thesis by simp
qed

end
